theory Spec2Isabelle
  imports Complex_Main "HOL-Library.Multiset"
begin

section \<open>Python values used by \<^verbatim>\<open>flamingpy/simulations.py\<close>\<close>

text \<open>
  \<^verbatim>\<open>delta\<close> and \<^verbatim>\<open>p_swap\<close> are Python floats. The engine performs no arithmetic
  on them and never compares them: they are stored in dictionaries and handed to the
  collaborators, so a real number stands for each. \<^verbatim>\<open>trials\<close> is a Python
  \<^verbatim>\<open>int\<close>, unbounded, hence \<open>int\<close>.
\<close>

type_synonym pyfloat = real

datatype pyval = PStr string | PBool bool | PInt int | PFloat pyfloat

text \<open>A dictionary literal, in the order its keys are written.\<close>

type_synonym pydict = "(string \<times> pyval) list"

text \<open>
  The code object is consumed through two attributes only, \<^verbatim>\<open>code.graph\<close> and
  \<^verbatim>\<open>code.all_syndrome_inds\<close>, which every code object carries, so reading them
  cannot fail. The type \<open>'a\<close> is the type of opaque Python objects (lattices, index
  collections, CV layers, beamsplitter networks).
\<close>

record 'a code_obj =
  graph :: 'a
  all_syndrome_inds :: 'a

section \<open>Collaborators, exceptions and the trace of a run\<close>

text \<open>
  \<^verbatim>\<open>CVLayer\<close>, \<^verbatim>\<open>apply_noise\<close>, \<^verbatim>\<open>measure_hom\<close>,
  \<^verbatim>\<open>reduce_macro_and_simulate\<close> and \<^verbatim>\<open>correct\<close> are imported from other
  modules. They are parameters of the model: each one acts on a world \<open>'w\<close> (random
  number generator, node attributes of the lattices, ...) and either raises an exception
  \<open>'x\<close> or returns. \<^verbatim>\<open>reduce_macro_and_simulate(*passive_objects, p_swap, delta)\<close>
  receives the elements of \<^verbatim>\<open>passive_objects\<close> followed by the two floats.
\<close>

record ('a, 'w, 'x) collaborators =
  CVLayer :: "'a \<Rightarrow> pyfloat \<Rightarrow> 'w \<Rightarrow> ('x + 'a) \<times> 'w"
  apply_noise :: "'a \<Rightarrow> pydict \<Rightarrow> 'w \<Rightarrow> ('x + unit) \<times> 'w"
  measure_hom :: "'a \<Rightarrow> string \<Rightarrow> 'a \<Rightarrow> 'w \<Rightarrow> ('x + unit) \<times> 'w"
  reduce_macro_and_simulate :: "'a list \<Rightarrow> pyfloat \<Rightarrow> pyfloat \<Rightarrow> 'w \<Rightarrow> ('x + unit) \<times> 'w"
  correct :: "'a code_obj \<Rightarrow> pydict \<Rightarrow> pydict \<Rightarrow> 'w \<Rightarrow> ('x + bool) \<times> 'w"

text \<open>
  What the engine does to its surroundings, in order: attribute reads on \<^verbatim>\<open>code\<close>
  and calls of collaborators, each with its arguments and with what came back.
\<close>

datatype 'a call =
    GetAttr string
  | CVLayer_init 'a pyfloat
  | Apply_noise 'a pydict
  | Measure_hom 'a string 'a
  | Reduce_macro "'a list" pyfloat pyfloat
  | Correct "'a code_obj" pydict pydict

datatype ('a, 'x) ret = Raised 'x | Returned_None | Returned_obj 'a | Returned_bool bool

type_synonym ('a, 'x) event = "'a call \<times> ('a, 'x) ret"

text \<open>
  An exception that leaves \<^verbatim>\<open>ec_monte_carlo\<close> is either one a collaborator raised
  or Python's own \<^verbatim>\<open>UnboundLocalError\<close>, for a local read in a branch that did not
  bind it.
\<close>

datatype 'x exn = UnboundLocalError string | Collab 'x

text \<open>
  A piece of the engine: from a world to an exception or a value, the world left behind
  and the events that happened.
\<close>

type_synonym ('r, 'a, 'w, 'x) run = "'w \<Rightarrow> ('x exn + 'r) \<times> 'w \<times> ('a, 'x) event list"

definition return :: "'r \<Rightarrow> ('r, 'a, 'w, 'x) run" where
  "return r w = (Inr r, w, [])"

definition seq :: "('r, 'a, 'w, 'x) run \<Rightarrow> ('r \<Rightarrow> ('q, 'a, 'w, 'x) run) \<Rightarrow> ('q, 'a, 'w, 'x) run" where
  "seq m f w =
     (case m w of
        (Inl e, w', tr) \<Rightarrow> (Inl e, w', tr)
      | (Inr r, w', tr) \<Rightarrow> (case f r w' of (res, w'', tr') \<Rightarrow> (res, w'', tr @ tr')))"

definition invoke ::
  "'a call \<Rightarrow> ('r \<Rightarrow> ('a, 'x) ret) \<Rightarrow> ('w \<Rightarrow> ('x + 'r) \<times> 'w) \<Rightarrow> ('r, 'a, 'w, 'x) run" where
  "invoke c mk f w =
     (case f w of
        (Inl x, w') \<Rightarrow> (Inl (Collab x), w', [(c, Raised x)])
      | (Inr r, w') \<Rightarrow> (Inr r, w', [(c, mk r)]))"

definition getattr :: "string \<Rightarrow> 'a \<Rightarrow> ('a, 'a, 'w, 'x) run" where
  "getattr name v w = (Inr v, w, [(GetAttr name, Returned_obj v)])"

definition load_local :: "string \<Rightarrow> 'v option \<Rightarrow> ('v, 'a, 'w, 'x) run" where
  "load_local name v w =
     (case v of None \<Rightarrow> (Inl (UnboundLocalError name), w, []) | Some x \<Rightarrow> (Inr x, w, []))"

section \<open>\<^verbatim>\<open>ec_monte_carlo\<close>\<close>

text \<open>
  The locals bound before the loop (lines 46 to 60). \<^verbatim>\<open>code_lattice\<close> and
  \<^verbatim>\<open>cv_noise\<close> are bound in the \<^verbatim>\<open>else\<close> branch only.
\<close>

record 'a locals =
  decoder :: pydict
  weight_options :: pydict
  code_lattice :: "'a option"
  cv_noise :: "pydict option"

text \<open>Lines 47 and 48.\<close>

definition passive_locals :: "'a locals" where
  "passive_locals =
     \<lparr>decoder = [(''outer'', PStr ''MWPM'')],
      weight_options = [(''method'', PStr ''blueprint''), (''prob_precomputed'', PBool True)],
      code_lattice = None,
      cv_noise = None\<rparr>"

text \<open>Lines 50 to 60, once \<^verbatim>\<open>code.graph\<close> has been read.\<close>

definition active_locals :: "'a \<Rightarrow> pyfloat \<Rightarrow> 'a locals" where
  "active_locals g delta =
     \<lparr>decoder = [(''inner'', PStr ''basic''), (''outer'', PStr ''MWPM'')],
      weight_options = [(''method'', PStr ''blueprint''), (''integer'', PBool False),
                        (''multiplier'', PInt 1), (''delta'', PFloat delta)],
      code_lattice = Some g,
      cv_noise = Some [(''noise'', PStr ''grn''), (''delta'', PFloat delta),
                       (''sampling_order'', PStr ''initial'')]\<rparr>"

definition build_config ::
  "'a code_obj \<Rightarrow> pyfloat \<Rightarrow> 'a list option \<Rightarrow> ('a locals, 'a, 'w, 'x) run" where
  "build_config code delta passive_objects =
     (if passive_objects \<noteq> None then return passive_locals
      else seq (getattr ''graph'' (graph code)) (\<lambda>g. return (active_locals g delta)))"

text \<open>The locals as the code before the loop leaves them.\<close>

definition locals_of :: "'a code_obj \<Rightarrow> pyfloat \<Rightarrow> 'a list option \<Rightarrow> 'a locals" where
  "locals_of code delta passive_objects =
     (if passive_objects \<noteq> None then passive_locals else active_locals (graph code) delta)"

text \<open>One iteration of the loop body, up to the decoder's verdict (lines 64 to 73).\<close>

definition trial ::
  "('a, 'w, 'x) collaborators \<Rightarrow> 'a code_obj \<Rightarrow> pyfloat \<Rightarrow> pyfloat \<Rightarrow> 'a list option \<Rightarrow>
   'a locals \<Rightarrow> (bool, 'a, 'w, 'x) run" where
  "trial C code delta p_swap passive_objects L =
     seq (case passive_objects of
            Some objs \<Rightarrow>
              invoke (Reduce_macro objs p_swap delta) (\<lambda>_. Returned_None)
                (reduce_macro_and_simulate C objs p_swap delta)
          | None \<Rightarrow>
              seq (load_local ''code_lattice'' (code_lattice L)) (\<lambda>g.
              seq (invoke (CVLayer_init g p_swap) Returned_obj (CVLayer C g p_swap)) (\<lambda>CVRHG.
              seq (load_local ''cv_noise'' (cv_noise L)) (\<lambda>noise.
              seq (invoke (Apply_noise CVRHG noise) (\<lambda>_. Returned_None)
                     (apply_noise C CVRHG noise)) (\<lambda>_.
              seq (getattr ''all_syndrome_inds'' (all_syndrome_inds code)) (\<lambda>inds.
              invoke (Measure_hom CVRHG ''p'' inds) (\<lambda>_. Returned_None)
                (measure_hom C CVRHG ''p'' inds)))))))
         (\<lambda>_. invoke (Correct code (decoder L) (weight_options L)) Returned_bool
                 (correct C code (decoder L) (weight_options L)))"

text \<open>
  The loop \<^verbatim>\<open>for _ in range(trials)\<close> with its accumulator \<^verbatim>\<open>successes\<close>;
  \<^verbatim>\<open>successes += result\<close> adds 1 for \<^verbatim>\<open>True\<close> and 0 for \<^verbatim>\<open>False\<close>.
  The first numeric argument is the number of iterations left.
\<close>

fun trial_loop ::
  "('a, 'w, 'x) collaborators \<Rightarrow> 'a code_obj \<Rightarrow> pyfloat \<Rightarrow> pyfloat \<Rightarrow> 'a list option \<Rightarrow>
   'a locals \<Rightarrow> nat \<Rightarrow> int \<Rightarrow> (int, 'a, 'w, 'x) run" where
  "trial_loop C code delta p_swap passive_objects L 0 successes = return successes"
| "trial_loop C code delta p_swap passive_objects L (Suc n) successes =
     seq (trial C code delta p_swap passive_objects L) (\<lambda>result.
     trial_loop C code delta p_swap passive_objects L n (successes + of_bool result))"

text \<open>\<^verbatim>\<open>range(trials)\<close> has \<open>nat trials\<close> elements: none when \<^verbatim>\<open>trials\<close> is negative.\<close>

definition ec_monte_carlo ::
  "('a, 'w, 'x) collaborators \<Rightarrow> 'a code_obj \<Rightarrow> int \<Rightarrow> pyfloat \<Rightarrow> pyfloat \<Rightarrow> 'a list option \<Rightarrow>
   (int, 'a, 'w, 'x) run" where
  "ec_monte_carlo C code trials delta p_swap passive_objects =
     seq (build_config code delta passive_objects) (\<lambda>L.
     seq (trial_loop C code delta p_swap passive_objects L (nat trials) 0) (\<lambda>successes.
     return (trials - successes)))"

section \<open>Reading a finished run\<close>

definition result :: "('e + 'r) \<times> 'w \<times> 't \<Rightarrow> 'e + 'r" where
  "result out = fst out"

definition world :: "('e + 'r) \<times> 'w \<times> 't \<Rightarrow> 'w" where
  "world out = fst (snd out)"

definition trace :: "('e + 'r) \<times> 'w \<times> 't \<Rightarrow> 't" where
  "trace out = snd (snd out)"

fun is_collaborator_call :: "('a, 'x) event \<Rightarrow> bool" where
  "is_collaborator_call (GetAttr name, r) = False"
| "is_collaborator_call (c, r) = True"

text \<open>The decoder's verdicts, in the order \<^verbatim>\<open>correct\<close> returned them.\<close>

fun verdicts :: "('a, 'x) event list \<Rightarrow> bool list" where
  "verdicts [] = []"
| "verdicts ((Correct c d wo, Returned_bool b) # tr) = b # verdicts tr"
| "verdicts (e # tr) = verdicts tr"

fun is_raise :: "('a, 'x) event \<Rightarrow> bool" where
  "is_raise (c, Raised x) = True"
| "is_raise (c, r) = False"

text \<open>The calls only the active pipeline makes, and the call only the passive one makes.\<close>

fun is_active_only :: "('a, 'x) event \<Rightarrow> bool" where
  "is_active_only (CVLayer_init g p, r) = True"
| "is_active_only (Apply_noise h cfg, r) = True"
| "is_active_only (Measure_hom h b inds, r) = True"
| "is_active_only (c, r) = False"

fun is_reduce :: "('a, 'x) event \<Rightarrow> bool" where
  "is_reduce (Reduce_macro objs p d, r) = True"
| "is_reduce (c, r) = False"

fun is_CVLayer_init :: "('a, 'x) event \<Rightarrow> bool" where
  "is_CVLayer_init (CVLayer_init g p, r) = True"
| "is_CVLayer_init (c, r) = False"

fun is_apply_noise :: "('a, 'x) event \<Rightarrow> bool" where
  "is_apply_noise (Apply_noise h cfg, r) = True"
| "is_apply_noise (c, r) = False"

fun is_measure_hom :: "('a, 'x) event \<Rightarrow> bool" where
  "is_measure_hom (Measure_hom h b inds, r) = True"
| "is_measure_hom (c, r) = False"

fun is_correct :: "('a, 'x) event \<Rightarrow> bool" where
  "is_correct (Correct c d wo, r) = True"
| "is_correct (c, r) = False"

fun is_graph_read :: "('a, 'x) event \<Rightarrow> bool" where
  "is_graph_read (GetAttr name, r) = (name = ''graph'')"
| "is_graph_read (c, r) = False"

text \<open>
  What one event of a run may be, given the arguments of \<^verbatim>\<open>ec_monte_carlo\<close> and the
  locals: which calls the pipeline in force makes, and with which arguments.
\<close>

fun event_ok ::
  "'a code_obj \<Rightarrow> pyfloat \<Rightarrow> pyfloat \<Rightarrow> 'a list option \<Rightarrow> 'a locals \<Rightarrow> ('a, 'x) event \<Rightarrow> bool" where
  "event_ok code delta p_swap po L (GetAttr name, r) =
     (po = None \<and>
      (name = ''graph'' \<and> r = Returned_obj (graph code) \<or>
       name = ''all_syndrome_inds'' \<and> r = Returned_obj (all_syndrome_inds code)))"
| "event_ok code delta p_swap po L (CVLayer_init g p, r) =
     (po = None \<and> code_lattice L = Some g \<and> p = p_swap)"
| "event_ok code delta p_swap po L (Apply_noise h cfg, r) =
     (po = None \<and> cv_noise L = Some cfg)"
| "event_ok code delta p_swap po L (Measure_hom h b inds, r) =
     (po = None \<and> b = ''p'' \<and> inds = all_syndrome_inds code)"
| "event_ok code delta p_swap po L (Reduce_macro objs p d, r) =
     (po = Some objs \<and> p = p_swap \<and> d = delta)"
| "event_ok code delta p_swap po L (Correct c dec wo, r) =
     (c = code \<and> dec = decoder L \<and> wo = weight_options L)"

text \<open>
  The CV layer in use while a trace unfolds: \<^verbatim>\<open>CVLayer(...)\<close> returning binds it,
  \<^verbatim>\<open>correct\<close> ends the iteration. \<open>handle_after\<close> gives the layer in use after a
  trace; \<open>handles_fresh\<close> checks that every \<^verbatim>\<open>CVLayer(...)\<close> starts from no layer
  in use and that \<^verbatim>\<open>apply_noise\<close> and \<^verbatim>\<open>measure_hom\<close> are called on the layer
  built last.
\<close>

fun handle_after :: "'a option \<Rightarrow> ('a, 'x) event list \<Rightarrow> 'a option" where
  "handle_after cur [] = cur"
| "handle_after cur ((CVLayer_init g p, Returned_obj h) # tr) = handle_after (Some h) tr"
| "handle_after cur ((CVLayer_init g p, r) # tr) = handle_after None tr"
| "handle_after cur ((Correct c d wo, r) # tr) = handle_after None tr"
| "handle_after cur (e # tr) = handle_after cur tr"

fun handles_fresh :: "'a option \<Rightarrow> ('a, 'x) event list \<Rightarrow> bool" where
  "handles_fresh cur [] = True"
| "handles_fresh cur ((CVLayer_init g p, Returned_obj h) # tr) =
     (cur = None \<and> handles_fresh (Some h) tr)"
| "handles_fresh cur ((CVLayer_init g p, r) # tr) = (cur = None \<and> handles_fresh None tr)"
| "handles_fresh cur ((Apply_noise h cfg, r) # tr) = (cur = Some h \<and> handles_fresh cur tr)"
| "handles_fresh cur ((Measure_hom h b inds, r) # tr) = (cur = Some h \<and> handles_fresh cur tr)"
| "handles_fresh cur ((Correct c d wo, r) # tr) = handles_fresh None tr"
| "handles_fresh cur (e # tr) = handles_fresh cur tr"

text \<open>
  What the engine hands over, event by event: the reducer gets the elements of
  \<^verbatim>\<open>passive_objects\<close> followed by \<^verbatim>\<open>p_swap\<close> and \<^verbatim>\<open>delta\<close>, a CV
  layer is built on \<^verbatim>\<open>code.graph\<close> with \<^verbatim>\<open>p_swap\<close>, the measurement gets
  \<^verbatim>\<open>code.all_syndrome_inds\<close>, the decoder gets \<^verbatim>\<open>code\<close>, and an attribute read
  gives the attribute of the code that was passed in.
\<close>

fun frame_ok ::
  "'a code_obj \<Rightarrow> pyfloat \<Rightarrow> pyfloat \<Rightarrow> 'a list option \<Rightarrow> ('a, 'x) event \<Rightarrow> bool" where
  "frame_ok code delta p_swap po (Reduce_macro objs p d, r) =
     (po = Some objs \<and> p = p_swap \<and> d = delta)"
| "frame_ok code delta p_swap po (CVLayer_init g p, r) = (g = graph code \<and> p = p_swap)"
| "frame_ok code delta p_swap po (Measure_hom h b inds, r) = (inds = all_syndrome_inds code)"
| "frame_ok code delta p_swap po (Correct c dec wo, r) = (c = code)"
| "frame_ok code delta p_swap po (GetAttr name, r) =
     (name = ''graph'' \<and> r = Returned_obj (graph code) \<or>
      name = ''all_syndrome_inds'' \<and> r = Returned_obj (all_syndrome_inds code))"
| "frame_ok code delta p_swap po (Apply_noise h cfg, r) = True"

text \<open>
  The world after the calls of a trace, replayed from a given world: each collaborator
  call is made again on the arguments recorded, attribute reads leave the world alone.
\<close>

fun apply_call :: "('a, 'w, 'x) collaborators \<Rightarrow> ('a, 'x) event \<Rightarrow> 'w \<Rightarrow> 'w" where
  "apply_call C (GetAttr name, r) w = w"
| "apply_call C (CVLayer_init g p, r) w = snd (CVLayer C g p w)"
| "apply_call C (Apply_noise h cfg, r) w = snd (apply_noise C h cfg w)"
| "apply_call C (Measure_hom h b inds, r) w = snd (measure_hom C h b inds w)"
| "apply_call C (Reduce_macro objs p d, r) w = snd (reduce_macro_and_simulate C objs p d w)"
| "apply_call C (Correct c dec wo, r) w = snd (correct C c dec wo w)"

definition replay :: "('a, 'w, 'x) collaborators \<Rightarrow> ('a, 'x) event list \<Rightarrow> 'w \<Rightarrow> 'w" where
  "replay C tr w = fold (apply_call C) tr w"

text \<open>
  How an exception shows in a run: a run that returns has seen no collaborator raise; a
  run that ends in a collaborator's exception has that exception as its last event and
  no other; \<^verbatim>\<open>UnboundLocalError\<close> comes with no collaborator raising.
\<close>

fun raise_ok :: "'x exn + 'r \<Rightarrow> ('a, 'x) event list \<Rightarrow> bool" where
  "raise_ok (Inr r) tr = (filter is_raise tr = [])"
| "raise_ok (Inl (UnboundLocalError name)) tr = (filter is_raise tr = [])"
| "raise_ok (Inl (Collab x)) tr =
     (tr \<noteq> [] \<and> snd (last tr) = Raised x \<and> filter is_raise (butlast tr) = [])"

section \<open>The reference formulation: the pipeline selected once, at entry\<close>

text \<open>
  Written from the specification, not from the source: a two-state mode
  \<open>{ACTIVE, PASSIVE}\<close> is chosen at entry from the presence of the passive bundle, with
  the configuration of that pipeline, and is held for the whole run. The loop never looks
  at the bundle argument again.
\<close>

datatype 'a pipeline =
    PASSIVE "'a list" pydict pydict
  | ACTIVE 'a pydict pydict pydict

definition select_pipeline_ref ::
  "'a code_obj \<Rightarrow> pyfloat \<Rightarrow> 'a list option \<Rightarrow> ('a pipeline, 'a, 'w, 'x) run" where
  "select_pipeline_ref code delta bundle =
     (case bundle of
        Some objs \<Rightarrow>
          return (PASSIVE objs [(''outer'', PStr ''MWPM'')]
                    [(''method'', PStr ''blueprint''), (''prob_precomputed'', PBool True)])
      | None \<Rightarrow>
          seq (getattr ''graph'' (graph code)) (\<lambda>g.
          return (ACTIVE g
                    [(''noise'', PStr ''grn''), (''delta'', PFloat delta),
                     (''sampling_order'', PStr ''initial'')]
                    [(''inner'', PStr ''basic''), (''outer'', PStr ''MWPM'')]
                    [(''method'', PStr ''blueprint''), (''integer'', PBool False),
                     (''multiplier'', PInt 1), (''delta'', PFloat delta)])))"

fun trial_ref ::
  "('a, 'w, 'x) collaborators \<Rightarrow> 'a code_obj \<Rightarrow> pyfloat \<Rightarrow> pyfloat \<Rightarrow> 'a pipeline \<Rightarrow>
   (bool, 'a, 'w, 'x) run" where
  "trial_ref C code delta p_swap (PASSIVE objs dec wo) =
     seq (invoke (Reduce_macro objs p_swap delta) (\<lambda>_. Returned_None)
            (reduce_macro_and_simulate C objs p_swap delta)) (\<lambda>_.
     invoke (Correct code dec wo) Returned_bool (correct C code dec wo))"
| "trial_ref C code delta p_swap (ACTIVE g noise dec wo) =
     seq (invoke (CVLayer_init g p_swap) Returned_obj (CVLayer C g p_swap)) (\<lambda>h.
     seq (invoke (Apply_noise h noise) (\<lambda>_. Returned_None) (apply_noise C h noise)) (\<lambda>_.
     seq (getattr ''all_syndrome_inds'' (all_syndrome_inds code)) (\<lambda>inds.
     seq (invoke (Measure_hom h ''p'' inds) (\<lambda>_. Returned_None)
            (measure_hom C h ''p'' inds)) (\<lambda>_.
     invoke (Correct code dec wo) Returned_bool (correct C code dec wo)))))"

fun trial_loop_ref ::
  "('a, 'w, 'x) collaborators \<Rightarrow> 'a code_obj \<Rightarrow> pyfloat \<Rightarrow> pyfloat \<Rightarrow> 'a pipeline \<Rightarrow>
   nat \<Rightarrow> int \<Rightarrow> (int, 'a, 'w, 'x) run" where
  "trial_loop_ref C code delta p_swap pl 0 successes = return successes"
| "trial_loop_ref C code delta p_swap pl (Suc n) successes =
     seq (trial_ref C code delta p_swap pl) (\<lambda>verdict.
     trial_loop_ref C code delta p_swap pl n (if verdict then successes + 1 else successes))"

definition run_trials_ref ::
  "('a, 'w, 'x) collaborators \<Rightarrow> 'a code_obj \<Rightarrow> int \<Rightarrow> pyfloat \<Rightarrow> pyfloat \<Rightarrow> 'a list option \<Rightarrow>
   (int, 'a, 'w, 'x) run" where
  "run_trials_ref C code trials delta swap_probability bundle =
     seq (select_pipeline_ref code delta bundle) (\<lambda>pl.
     seq (trial_loop_ref C code delta swap_probability pl (nat trials) 0) (\<lambda>successes.
     return (trials - successes)))"

section \<open>The results ledger (lines 137 to 160)\<close>

text \<open>
  A file is the list of rows \<^verbatim>\<open>csv.writer.writerow\<close> has written to it, each row
  the list of values given; how a value is printed is not modelled. The file system is
  the list of existing directories and the files by path.
  \<^verbatim>\<open>open(name, "x")\<close> raises \<^verbatim>\<open>FileExistsError\<close> when the file exists and
  \<^verbatim>\<open>FileNotFoundError\<close> when its directory does not; \<^verbatim>\<open>open(name, "a")\<close>
  creates a missing file and otherwise writes at the end. \<open>writerow\<close> is only ever
  reached with the file open, hence existing.
\<close>

type_synonym row = "pyval list"

record filesystem =
  dirs :: "string list"
  files :: "string \<rightharpoonup> row list"

datatype os_error = FileExistsError | FileNotFoundError

definition dirname :: "string \<Rightarrow> string" where
  "dirname path = rev (drop 1 (dropWhile (\<lambda>c. c \<noteq> CHR ''/'') (rev path)))"

definition open_x :: "filesystem \<Rightarrow> string \<Rightarrow> os_error + filesystem" where
  "open_x fs name =
     (if files fs name \<noteq> None then Inl FileExistsError
      else if dirname name \<notin> set (dirs fs) then Inl FileNotFoundError
      else Inr (fs\<lparr>files := (files fs)(name \<mapsto> [])\<rparr>))"

definition open_a :: "filesystem \<Rightarrow> string \<Rightarrow> os_error + filesystem" where
  "open_a fs name =
     (if files fs name \<noteq> None then Inr fs
      else if dirname name \<notin> set (dirs fs) then Inl FileNotFoundError
      else Inr (fs\<lparr>files := (files fs)(name \<mapsto> [])\<rparr>))"

definition writerow :: "filesystem \<Rightarrow> string \<Rightarrow> row \<Rightarrow> filesystem" where
  "writerow fs name r =
     (case files fs name of
        None \<Rightarrow> fs
      | Some rows \<Rightarrow> fs\<lparr>files := (files fs)(name \<mapsto> rows @ [r])\<rparr>)"

definition file_name :: string where
  "file_name = ''./flamingpy/sims_data/sims_results.csv''"

definition header :: row where
  "header = [PStr ''distance'', PStr ''ec'', PStr ''boundaries'', PStr ''delta'', PStr ''p_swap'',
             PStr ''errors_py'', PStr ''trials'', PStr ''current_time'']"

definition data_row :: "int \<Rightarrow> string \<Rightarrow> string \<Rightarrow> pyfloat \<Rightarrow> pyfloat \<Rightarrow> int \<Rightarrow> int \<Rightarrow> string \<Rightarrow> row" where
  "data_row distance ec boundaries delta p_swap errors trials current_time =
     [PInt distance, PStr ec, PStr boundaries, PFloat delta, PFloat p_swap, PInt errors,
      PInt trials, PStr current_time]"

text \<open>
  The \<^verbatim>\<open>try\<close> block creates the file and writes the header; only
  \<^verbatim>\<open>FileExistsError\<close> is caught, and its handler opens the file for appending.
  \<^verbatim>\<open>current_time\<close> is the clock's reading, an input here.
\<close>

definition results_ledger ::
  "filesystem \<Rightarrow> int \<Rightarrow> string \<Rightarrow> string \<Rightarrow> pyfloat \<Rightarrow> pyfloat \<Rightarrow> int \<Rightarrow> int \<Rightarrow> string \<Rightarrow>
   os_error + filesystem" where
  "results_ledger fs distance ec boundaries delta p_swap errors trials current_time =
     (case (case open_x fs file_name of
              Inr fs1 \<Rightarrow> Inr (writerow fs1 file_name header)
            | Inl FileExistsError \<Rightarrow> open_a fs file_name
            | Inl e \<Rightarrow> Inl e) of
        Inl e \<Rightarrow> Inl e
      | Inr fs2 \<Rightarrow>
          Inr (writerow fs2 file_name
                 (data_row distance ec boundaries delta p_swap errors trials current_time)))"

text \<open>The rows of the ledger file after a write, if the write went through.\<close>

definition ledger_rows :: "os_error + filesystem \<Rightarrow> row list option" where
  "ledger_rows out = (case out of Inl e \<Rightarrow> None | Inr fs \<Rightarrow> files fs file_name)"

text \<open>The header as the specification words it, to compare with the one the code writes.\<close>

definition header_spec :: row where
  "header_spec = [PStr ''distance'', PStr ''ec'', PStr ''boundaries'', PStr ''delta'',
                  PStr ''p_swap'', PStr ''errors'', PStr ''trials'', PStr ''current_time'']"

section \<open>Stub collaborators for concrete runs\<close>

text \<open>
  Objects are numbers, the world is the list of verdicts the decoder has still to give,
  and the decoder raises once the list is used up. \<^verbatim>\<open>CVLayer\<close> returns a layer
  numbered after the lattice it wraps.
\<close>

definition stub :: "(nat, bool list, string) collaborators" where
  "stub =
     \<lparr>CVLayer = (\<lambda>g p w. (Inr (g + 100), w)),
      apply_noise = (\<lambda>h cfg w. (Inr (), w)),
      measure_hom = (\<lambda>h b inds w. (Inr (), w)),
      reduce_macro_and_simulate = (\<lambda>objs p d w. (Inr (), w)),
      correct = (\<lambda>c dec wo w.
        (case w of [] \<Rightarrow> (Inl ''decoder failed'', []) | b # bs \<Rightarrow> (Inr b, bs)))\<rparr>"

text \<open>The same collaborators, but \<^verbatim>\<open>apply_noise\<close> raises on every call.\<close>

definition stub_noisy :: "(nat, bool list, string) collaborators" where
  "stub_noisy = stub\<lparr>apply_noise := (\<lambda>h cfg w. (Inl ''noise failed'', w))\<rparr>"

definition stub_code :: "nat code_obj" where
  "stub_code = \<lparr>graph = 7, all_syndrome_inds = 8\<rparr>"

definition stub_bundle :: "nat list" where
  "stub_bundle = [1, 2, 3, 4]"

text \<open>
  Concrete runs of five trials, three of which the decoder reports as successes: one with
  the passive bundle, one without it.
\<close>

definition passive_run5 :: "(string exn + int) \<times> bool list \<times> (nat, string) event list" where
  "passive_run5 =
     ec_monte_carlo stub stub_code 5 (1/100) (1/2) (Some stub_bundle)
       [True, False, True, False, True]"

definition active_run5 :: "(string exn + int) \<times> bool list \<times> (nat, string) event list" where
  "active_run5 =
     ec_monte_carlo stub stub_code 5 (1/100) (1/2) None [True, False, True, False, True]"



text \<open>A file system with the ledger's directory and no file in it.\<close>

definition stub_fs :: filesystem where
  "stub_fs = \<lparr>dirs = [''./flamingpy/sims_data''], files = Map.empty\<rparr>"

text \<open>That file system after one write of the ledger.\<close>

definition stub_fs_written :: filesystem where
  "stub_fs_written =
     (case results_ledger stub_fs 2 ''primal'' ''open'' (1/100) (1/2) 30 100 ''12:00:00'' of
        Inl e \<Rightarrow> stub_fs
      | Inr fs \<Rightarrow> fs)"

section \<open>One iteration\<close>

lemma ec_monte_carlo_passive:
  "ec_monte_carlo C code T delta p_swap (Some objs) w =
     (case trial_loop C code delta p_swap (Some objs) passive_locals (nat T) 0 w of
        (Inl e, w', tr) \<Rightarrow> (Inl e, w', tr)
      | (Inr s, w', tr) \<Rightarrow> (Inr (T - s), w', tr))"
  by (simp add: ec_monte_carlo_def build_config_def seq_def return_def
      split: prod.splits sum.splits)

lemma ec_monte_carlo_active:
  "ec_monte_carlo C code T delta p_swap None w =
     (case trial_loop C code delta p_swap None (active_locals (graph code) delta) (nat T) 0 w of
        (Inl e, w', tr) \<Rightarrow> (Inl e, w', (GetAttr ''graph'', Returned_obj (graph code)) # tr)
      | (Inr s, w', tr) \<Rightarrow>
          (Inr (T - s), w', (GetAttr ''graph'', Returned_obj (graph code)) # tr))"
  by (simp add: ec_monte_carlo_def build_config_def seq_def return_def getattr_def
      split: prod.splits sum.splits)

lemma trial_passive_returns:
  "trial C code delta p_swap (Some objs) L w = (Inr b, w', tr) \<Longrightarrow>
   tr = [(Reduce_macro objs p_swap delta, Returned_None),
         (Correct code (decoder L) (weight_options L), Returned_bool b)]"
  by (auto simp: trial_def seq_def invoke_def split: prod.splits sum.splits)

lemma trial_active_returns:
  "trial C code delta p_swap None L w = (Inr b, w', tr) \<Longrightarrow>
   \<exists>g noise h. code_lattice L = Some g \<and> cv_noise L = Some noise \<and>
     tr = [(CVLayer_init g p_swap, Returned_obj h),
           (Apply_noise h noise, Returned_None),
           (GetAttr ''all_syndrome_inds'', Returned_obj (all_syndrome_inds code)),
           (Measure_hom h ''p'' (all_syndrome_inds code), Returned_None),
           (Correct code (decoder L) (weight_options L), Returned_bool b)]"
  by (auto simp: trial_def seq_def invoke_def getattr_def load_local_def
      split: prod.splits sum.splits option.splits)

lemma trial_events_ok:
  "trial C code delta p_swap po L w = (res, w', tr) \<Longrightarrow>
   list_all (event_ok code delta p_swap po L) tr"
  by (cases po)
    (auto simp: trial_def seq_def invoke_def getattr_def load_local_def
      split: prod.splits sum.splits option.splits)

section \<open>Traces under concatenation\<close>

lemma verdicts_append: "verdicts (tr1 @ tr2) = verdicts tr1 @ verdicts tr2"
  by (induction tr1 rule: verdicts.induct) simp_all

lemma handle_after_append:
  "handle_after cur (tr1 @ tr2) = handle_after (handle_after cur tr1) tr2"
  by (induction cur tr1 rule: handle_after.induct) simp_all

lemma handles_fresh_append:
  "handles_fresh cur (tr1 @ tr2) =
     (handles_fresh cur tr1 \<and> handles_fresh (handle_after cur tr1) tr2)"
  by (induction cur tr1 rule: handles_fresh.induct) simp_all

lemma raise_ok_append:
  "filter is_raise tr1 = [] \<Longrightarrow> raise_ok res tr2 \<Longrightarrow> raise_ok res (tr1 @ tr2)"
  by (cases "(res, tr2)" rule: raise_ok.cases) (auto simp: butlast_append)

lemma raise_ok_Inl:
  "raise_ok (Inl e :: 'x exn + 'r) tr \<Longrightarrow> raise_ok (Inl e :: 'x exn + 'q) tr"
  by (cases e) simp_all

lemma trial_raise_ok:
  "trial C code delta p_swap po L w = (res, w', tr) \<Longrightarrow> raise_ok res tr"
  by (cases po)
    (auto simp: trial_def seq_def invoke_def getattr_def load_local_def
      split: prod.splits sum.splits option.splits)

lemma trial_fresh:
  "trial C code delta p_swap po L w = (res, w', tr) \<Longrightarrow>
   handles_fresh None tr \<and> (\<forall>b. res = Inr b \<longrightarrow> handle_after None tr = None)"
  by (cases po)
    (auto simp: trial_def seq_def invoke_def getattr_def load_local_def
      split: prod.splits sum.splits option.splits)

lemma trial_loop_events_ok:
  "trial_loop C code delta p_swap po L n s w = (res, w', tr) \<Longrightarrow>
   list_all (event_ok code delta p_swap po L) tr"
proof (induction n arbitrary: s w res w' tr)
  case 0
  then show ?case by (simp add: return_def)
next
  case (Suc n)
  obtain r1 w1 tr1 where t: "trial C code delta p_swap po L w = (r1, w1, tr1)"
    by (cases "trial C code delta p_swap po L w") auto
  have ok1: "list_all (event_ok code delta p_swap po L) tr1"
    using t by (rule trial_events_ok)
  show ?case
  proof (cases r1)
    case (Inl e)
    with Suc.prems t ok1 show ?thesis by (simp add: seq_def)
  next
    case (Inr b)
    obtain r2 w2 tr2 where l:
      "trial_loop C code delta p_swap po L n (s + of_bool b) w1 = (r2, w2, tr2)"
      by (cases "trial_loop C code delta p_swap po L n (s + of_bool b) w1") auto
    from Suc.IH [OF l] have "list_all (event_ok code delta p_swap po L) tr2" .
    with Suc.prems t Inr l ok1 show ?thesis by (auto simp: seq_def)
  qed
qed

lemma trial_loop_raise_ok:
  "trial_loop C code delta p_swap po L n s w = (res, w', tr) \<Longrightarrow> raise_ok res tr"
proof (induction n arbitrary: s w res w' tr)
  case 0
  then show ?case by (auto simp: return_def)
next
  case (Suc n)
  obtain r1 w1 tr1 where t: "trial C code delta p_swap po L w = (r1, w1, tr1)"
    by (cases "trial C code delta p_swap po L w") auto
  have ok1: "raise_ok r1 tr1"
    using t by (rule trial_raise_ok)
  show ?case
  proof (cases r1)
    case (Inl e)
    with Suc.prems t ok1 show ?thesis by (auto simp: seq_def dest: raise_ok_Inl)
  next
    case (Inr b)
    obtain r2 w2 tr2 where l:
      "trial_loop C code delta p_swap po L n (s + of_bool b) w1 = (r2, w2, tr2)"
      by (cases "trial_loop C code delta p_swap po L n (s + of_bool b) w1") auto
    from Suc.IH [OF l] have "raise_ok r2 tr2" .
    moreover from ok1 Inr have "filter is_raise tr1 = []" by simp
    ultimately have "raise_ok r2 (tr1 @ tr2)" by (simp add: raise_ok_append)
    with Suc.prems t Inr l show ?thesis by (auto simp: seq_def)
  qed
qed

lemma trial_loop_fresh:
  "trial_loop C code delta p_swap po L n s w = (res, w', tr) \<Longrightarrow>
   handles_fresh None tr \<and> (\<forall>r. res = Inr r \<longrightarrow> handle_after None tr = None)"
proof (induction n arbitrary: s w res w' tr)
  case 0
  then show ?case by (auto simp: return_def)
next
  case (Suc n)
  obtain r1 w1 tr1 where t: "trial C code delta p_swap po L w = (r1, w1, tr1)"
    by (cases "trial C code delta p_swap po L w") auto
  have ok1: "handles_fresh None tr1 \<and> (\<forall>b. r1 = Inr b \<longrightarrow> handle_after None tr1 = None)"
    using t by (rule trial_fresh)
  show ?case
  proof (cases r1)
    case (Inl e)
    with Suc.prems t ok1 show ?thesis by (auto simp: seq_def)
  next
    case (Inr b)
    obtain r2 w2 tr2 where l:
      "trial_loop C code delta p_swap po L n (s + of_bool b) w1 = (r2, w2, tr2)"
      by (cases "trial_loop C code delta p_swap po L n (s + of_bool b) w1") auto
    from Suc.IH [OF l]
    have "handles_fresh None tr2 \<and> (\<forall>r. r2 = Inr r \<longrightarrow> handle_after None tr2 = None)" .
    with Suc.prems t Inr l ok1 show ?thesis
      by (auto simp: seq_def handles_fresh_append handle_after_append)
  qed
qed

lemma trial_returns_counts:
  "trial C code delta p_swap po L w = (Inr b, w', tr) \<Longrightarrow>
   verdicts tr = [b] \<and> length (filter is_correct tr) = 1 \<and>
   length (filter is_reduce tr) = (if po = None then 0 else 1) \<and>
   length (filter is_CVLayer_init tr) = (if po = None then 1 else 0) \<and>
   length (filter is_apply_noise tr) = (if po = None then 1 else 0) \<and>
   length (filter is_measure_hom tr) = (if po = None then 1 else 0)"
proof (cases po)
  case None
  assume "trial C code delta p_swap po L w = (Inr b, w', tr)"
  with None show ?thesis by (auto dest!: trial_active_returns)
next
  case (Some objs)
  assume "trial C code delta p_swap po L w = (Inr b, w', tr)"
  with Some show ?thesis by (auto dest!: trial_passive_returns)
qed

lemma trial_loop_returns:
  "trial_loop C code delta p_swap po L n s w = (Inr r, w', tr) \<Longrightarrow>
   r = s + int (length (filter (\<lambda>b. b) (verdicts tr))) \<and>
   length (verdicts tr) = n \<and>
   length (filter is_correct tr) = n \<and>
   length (filter is_reduce tr) = (if po = None then 0 else n) \<and>
   length (filter is_CVLayer_init tr) = (if po = None then n else 0) \<and>
   length (filter is_apply_noise tr) = (if po = None then n else 0) \<and>
   length (filter is_measure_hom tr) = (if po = None then n else 0)"
proof (induction n arbitrary: s w r w' tr)
  case 0
  then show ?case by (auto simp: return_def)
next
  case (Suc n)
  obtain r1 w1 tr1 where t: "trial C code delta p_swap po L w = (r1, w1, tr1)"
    by (cases "trial C code delta p_swap po L w") auto
  show ?case
  proof (cases r1)
    case (Inl e)
    with Suc.prems t show ?thesis by (simp add: seq_def)
  next
    case (Inr b)
    obtain r2 w2 tr2 where l:
      "trial_loop C code delta p_swap po L n (s + of_bool b) w1 = (r2, w2, tr2)"
      by (cases "trial_loop C code delta p_swap po L n (s + of_bool b) w1") auto
    from Suc.prems t Inr l have r2: "r2 = Inr r" and tr: "tr = tr1 @ tr2"
      by (auto simp: seq_def)
    note one = trial_returns_counts [OF t [unfolded Inr]]
    note rest = Suc.IH [OF l [unfolded r2]]
    from one rest show ?thesis
      unfolding tr by (cases b) (simp_all add: verdicts_append)
  qed
qed

section \<open>The whole run\<close>

lemma ec_monte_carlo_loop:
  assumes "ec_monte_carlo C code T delta p_swap po w = (res, w', tr)"
  obtains r tr0 where
    "trial_loop C code delta p_swap po (locals_of code delta po) (nat T) 0 w = (r, w', tr0)"
    and "tr = (if po = None then [(GetAttr ''graph'', Returned_obj (graph code))] else []) @ tr0"
    and "res = (case r of Inl e \<Rightarrow> Inl e | Inr s \<Rightarrow> Inr (T - s))"
proof (cases po)
  case None
  with assms show ?thesis
    by (intro that [of "fst (trial_loop C code delta p_swap po (locals_of code delta po) (nat T) 0 w)"
          "snd (snd (trial_loop C code delta p_swap po (locals_of code delta po) (nat T) 0 w))"])
      (auto simp: ec_monte_carlo_active locals_of_def split: prod.splits sum.splits)
next
  case (Some objs)
  with assms show ?thesis
    by (intro that [of "fst (trial_loop C code delta p_swap po (locals_of code delta po) (nat T) 0 w)"
          "snd (snd (trial_loop C code delta p_swap po (locals_of code delta po) (nat T) 0 w))"])
      (auto simp: ec_monte_carlo_passive locals_of_def split: prod.splits sum.splits)
qed

lemma ec_monte_carlo_events_ok:
  assumes "ec_monte_carlo C code T delta p_swap po w = (res, w', tr)"
  shows "list_all (event_ok code delta p_swap po (locals_of code delta po)) tr"
proof -
  from assms obtain r tr0 where
    l: "trial_loop C code delta p_swap po (locals_of code delta po) (nat T) 0 w = (r, w', tr0)"
    and tr: "tr = (if po = None then [(GetAttr ''graph'', Returned_obj (graph code))] else []) @ tr0"
    by (rule ec_monte_carlo_loop)
  from trial_loop_events_ok [OF l] show ?thesis unfolding tr by simp
qed

lemma ec_monte_carlo_raise_ok:
  assumes "ec_monte_carlo C code T delta p_swap po w = (res, w', tr)"
  shows "raise_ok res tr"
proof -
  from assms obtain r tr0 where
    l: "trial_loop C code delta p_swap po (locals_of code delta po) (nat T) 0 w = (r, w', tr0)"
    and tr: "tr = (if po = None then [(GetAttr ''graph'', Returned_obj (graph code))] else []) @ tr0"
    and res: "res = (case r of Inl e \<Rightarrow> Inl e | Inr s \<Rightarrow> Inr (T - s))"
    by (rule ec_monte_carlo_loop)
  from trial_loop_raise_ok [OF l] have "raise_ok r tr0" .
  then have "raise_ok res tr0"
    unfolding res by (cases r) (auto dest: raise_ok_Inl)
  then show ?thesis unfolding tr by (intro raise_ok_append) simp_all
qed

lemma ec_monte_carlo_fresh:
  assumes "ec_monte_carlo C code T delta p_swap po w = (res, w', tr)"
  shows "handles_fresh None tr"
proof -
  from assms obtain r tr0 where
    l: "trial_loop C code delta p_swap po (locals_of code delta po) (nat T) 0 w = (r, w', tr0)"
    and tr: "tr = (if po = None then [(GetAttr ''graph'', Returned_obj (graph code))] else []) @ tr0"
    by (rule ec_monte_carlo_loop)
  from trial_loop_fresh [OF l] show ?thesis unfolding tr by simp
qed

lemma ec_monte_carlo_returns:
  assumes "ec_monte_carlo C code T delta p_swap po w = (Inr errors, w', tr)"
  shows "errors = T - int (length (filter (\<lambda>b. b) (verdicts tr)))"
    and "length (verdicts tr) = nat T"
    and "length (filter is_correct tr) = nat T"
    and "length (filter is_reduce tr) = (if po = None then 0 else nat T)"
    and "length (filter is_CVLayer_init tr) = (if po = None then nat T else 0)"
    and "length (filter is_apply_noise tr) = (if po = None then nat T else 0)"
    and "length (filter is_measure_hom tr) = (if po = None then nat T else 0)"
proof -
  from assms obtain r tr0 where
    l: "trial_loop C code delta p_swap po (locals_of code delta po) (nat T) 0 w = (r, w', tr0)"
    and tr: "tr = (if po = None then [(GetAttr ''graph'', Returned_obj (graph code))] else []) @ tr0"
    and res: "Inr errors = (case r of Inl e \<Rightarrow> Inl e | Inr s \<Rightarrow> Inr (T - s))"
    by (rule ec_monte_carlo_loop)
  from res obtain s where r: "r = Inr s" and e: "errors = T - s"
    by (cases r) auto
  note facts = trial_loop_returns [OF l [unfolded r]]
  from facts e show "errors = T - int (length (filter (\<lambda>b. b) (verdicts tr)))"
    unfolding tr by (simp add: verdicts_append)
  from facts show "length (verdicts tr) = nat T"
    unfolding tr by (simp add: verdicts_append)
  from facts show "length (filter is_correct tr) = nat T"
    unfolding tr by simp
  from facts show "length (filter is_reduce tr) = (if po = None then 0 else nat T)"
    unfolding tr by simp
  from facts show "length (filter is_CVLayer_init tr) = (if po = None then nat T else 0)"
    unfolding tr by simp
  from facts show "length (filter is_apply_noise tr) = (if po = None then nat T else 0)"
    unfolding tr by simp
  from facts show "length (filter is_measure_hom tr) = (if po = None then nat T else 0)"
    unfolding tr by simp
qed


lemma trial_loop_list_all:
  assumes step: "\<And>w res w' tr. trial C code delta p_swap po L w = (res, w', tr) \<Longrightarrow> list_all P tr"
  shows "trial_loop C code delta p_swap po L n s w = (res, w', tr) \<Longrightarrow> list_all P tr"
proof (induction n arbitrary: s w res w' tr)
  case 0
  then show ?case by (simp add: return_def)
next
  case (Suc n)
  obtain r1 w1 tr1 where t: "trial C code delta p_swap po L w = (r1, w1, tr1)"
    by (cases "trial C code delta p_swap po L w") auto
  have ok1: "list_all P tr1"
    using t by (rule step)
  show ?case
  proof (cases r1)
    case (Inl e)
    with Suc.prems t ok1 show ?thesis by (simp add: seq_def)
  next
    case (Inr b)
    obtain r2 w2 tr2 where l:
      "trial_loop C code delta p_swap po L n (s + of_bool b) w1 = (r2, w2, tr2)"
      by (cases "trial_loop C code delta p_swap po L n (s + of_bool b) w1") auto
    from Suc.IH [OF l] have "list_all P tr2" .
    with Suc.prems t Inr l ok1 show ?thesis by (auto simp: seq_def)
  qed
qed

lemma trial_no_graph_read:
  "trial C code delta p_swap po L w = (res, w', tr) \<Longrightarrow>
   list_all (\<lambda>e. \<not> is_graph_read e) tr"
  by (cases po)
    (auto simp: trial_def seq_def invoke_def getattr_def load_local_def
      split: prod.splits sum.splits option.splits)

lemma ec_monte_carlo_graph_reads:
  assumes "ec_monte_carlo C code T delta p_swap po w = (res, w', tr)"
  shows "length (filter is_graph_read tr) = (if po = None then 1 else 0)"
proof -
  from assms obtain r tr0 where
    l: "trial_loop C code delta p_swap po (locals_of code delta po) (nat T) 0 w = (r, w', tr0)"
    and tr: "tr = (if po = None then [(GetAttr ''graph'', Returned_obj (graph code))] else []) @ tr0"
    by (rule ec_monte_carlo_loop)
  have "list_all (\<lambda>e. \<not> is_graph_read e) tr0"
    using trial_no_graph_read l by (rule trial_loop_list_all)
  then have "filter is_graph_read tr0 = []"
    by (simp add: filter_empty_conv list_all_iff)
  then show ?thesis unfolding tr by simp
qed

lemma run_collapse: "out = (result out, world out, trace out)"
  by (simp add: result_def world_def trace_def)

section \<open>Runs without trials\<close>

lemma trial_loop_0: "trial_loop C code delta p_swap po L 0 s w = (Inr s, w, [])"
  by (simp add: return_def)

text \<open>
  C1. With \<^verbatim>\<open>trials = 0\<close>, for every code, \<^verbatim>\<open>delta\<close>, \<^verbatim>\<open>p_swap\<close>, every
  behaviour of the collaborators and every starting world, \<^verbatim>\<open>ec_monte_carlo\<close> returns 0,
  the trace holds no call of a collaborator (\<^verbatim>\<open>CVLayer\<close>, \<^verbatim>\<open>apply_noise\<close>,
  \<^verbatim>\<open>measure_hom\<close>, \<^verbatim>\<open>reduce_macro_and_simulate\<close>, \<^verbatim>\<open>correct\<close>) and the world
  is the one the run started in, with a passive bundle and without one.
\<close>

theorem ec_monte_carlo_zero_trials:
  "result (ec_monte_carlo C code 0 delta p_swap passive_objects w) = Inr 0 \<and>
   filter is_collaborator_call (trace (ec_monte_carlo C code 0 delta p_swap passive_objects w)) = [] \<and>
   world (ec_monte_carlo C code 0 delta p_swap passive_objects w) = w"
  by (simp add: ec_monte_carlo_def build_config_def seq_def return_def getattr_def
      result_def world_def trace_def)

section \<open>The pipeline is selected once\<close>

lemma trial_passive_ref:
  "trial C code delta p_swap (Some objs) passive_locals =
   trial_ref C code delta p_swap
     (PASSIVE objs [(''outer'', PStr ''MWPM'')]
        [(''method'', PStr ''blueprint''), (''prob_precomputed'', PBool True)])"
  by (simp add: trial_def passive_locals_def)

lemma seq_assoc: "seq (seq m f) g = seq m (\<lambda>x. seq (f x) g)"
  by (rule ext) (simp add: seq_def split: prod.splits sum.splits)

lemma seq_return: "seq (return v) f = f v"
  by (rule ext) (simp add: seq_def return_def)

lemma seq_load_local: "seq (load_local name (Some v)) f = f v"
  by (rule ext) (simp add: seq_def load_local_def)

lemma trial_active_ref:
  "trial C code delta p_swap None (active_locals g delta) =
   trial_ref C code delta p_swap
     (ACTIVE g
        [(''noise'', PStr ''grn''), (''delta'', PFloat delta), (''sampling_order'', PStr ''initial'')]
        [(''inner'', PStr ''basic''), (''outer'', PStr ''MWPM'')]
        [(''method'', PStr ''blueprint''), (''integer'', PBool False),
         (''multiplier'', PInt 1), (''delta'', PFloat delta)])"
  by (simp add: trial_def active_locals_def seq_assoc seq_load_local)

lemma trial_loop_ref_eq:
  "trial C code delta p_swap po L = trial_ref C code delta p_swap pl \<Longrightarrow>
   trial_loop C code delta p_swap po L n s = trial_loop_ref C code delta p_swap pl n s"
proof (induction n arbitrary: s)
  case 0
  show ?case by simp
next
  case (Suc n)
  have "(\<lambda>b. trial_loop C code delta p_swap po L n (s + of_bool b)) =
        (\<lambda>b. trial_loop_ref C code delta p_swap pl n (if b then s + 1 else s))"
    by (rule ext) (simp add: Suc.IH [OF Suc.prems])
  with Suc.prems show ?case by simp
qed

text \<open>
  C5. \<^verbatim>\<open>ec_monte_carlo\<close> is equal, as a function of the collaborators, its five
  arguments and the starting world (result, world left behind and trace of events), to
  the reference formulation that selects the pipeline once at entry, from the presence of
  the passive bundle, and holds it for the whole run. The source tests
  \<^verbatim>\<open>passive_objects is not None\<close> again in every iteration; the name is never
  rebound, so the test gives the same answer each time and no
  \<^verbatim>\<open>UnboundLocalError\<close> can arise.
\<close>

theorem ec_monte_carlo_selects_once:
  "ec_monte_carlo C code trials delta p_swap passive_objects =
   run_trials_ref C code trials delta p_swap passive_objects"
proof (cases passive_objects)
  case None
  then show ?thesis
    by (simp add: ec_monte_carlo_def run_trials_ref_def build_config_def select_pipeline_ref_def
        seq_assoc seq_return trial_loop_ref_eq [OF trial_active_ref])
next
  case (Some objs)
  then show ?thesis
    by (simp add: ec_monte_carlo_def run_trials_ref_def build_config_def select_pipeline_ref_def
        seq_return trial_loop_ref_eq [OF trial_passive_ref])
qed

section \<open>The world after a run, and the exceptions of a run\<close>

lemma replay_append: "replay C (tr1 @ tr2) w = replay C tr2 (replay C tr1 w)"
  by (simp add: replay_def)

lemma trial_replay:
  "trial C code delta p_swap po L w = (res, w', tr) \<Longrightarrow> w' = replay C tr w"
  by (cases po)
    (auto simp: trial_def seq_def invoke_def getattr_def load_local_def replay_def
      split: prod.splits sum.splits option.splits)

lemma trial_loop_replay:
  "trial_loop C code delta p_swap po L n s w = (res, w', tr) \<Longrightarrow> w' = replay C tr w"
proof (induction n arbitrary: s w res w' tr)
  case 0
  then show ?case by (simp add: return_def replay_def)
next
  case (Suc n)
  obtain r1 w1 tr1 where t: "trial C code delta p_swap po L w = (r1, w1, tr1)"
    by (cases "trial C code delta p_swap po L w") auto
  have w1: "w1 = replay C tr1 w"
    using t by (rule trial_replay)
  show ?case
  proof (cases r1)
    case (Inl e)
    with Suc.prems t w1 show ?thesis by (auto simp: seq_def)
  next
    case (Inr b)
    obtain r2 w2 tr2 where l:
      "trial_loop C code delta p_swap po L n (s + of_bool b) w1 = (r2, w2, tr2)"
      by (cases "trial_loop C code delta p_swap po L n (s + of_bool b) w1") auto
    from Suc.IH [OF l] have "w2 = replay C tr2 w1" .
    with Suc.prems t Inr l w1 show ?thesis by (auto simp: seq_def replay_append)
  qed
qed

lemma ec_monte_carlo_replay:
  assumes "ec_monte_carlo C code T delta p_swap po w = (res, w', tr)"
  shows "w' = replay C tr w"
proof -
  from assms obtain r tr0 where
    l: "trial_loop C code delta p_swap po (locals_of code delta po) (nat T) 0 w = (r, w', tr0)"
    and tr: "tr = (if po = None then [(GetAttr ''graph'', Returned_obj (graph code))] else []) @ tr0"
    by (rule ec_monte_carlo_loop)
  from trial_loop_replay [OF l] show ?thesis unfolding tr by (simp add: replay_def)
qed

lemma seq_InlE:
  assumes "seq m f w = (Inl e, w', tr)"
  obtains (first) "m w = (Inl e, w', tr)"
  | (second) r w1 tr1 tr2 where "m w = (Inr r, w1, tr1)" and "f r w1 = (Inl e, w', tr2)"
  using assms by (auto simp: seq_def split: prod.splits sum.splits)

lemma invoke_Inl: "invoke c mk f w = (Inl e, w', tr) \<Longrightarrow> \<exists>x. e = Collab x"
  by (auto simp: invoke_def split: prod.splits sum.splits)

lemma getattr_Inl: "getattr name v w = (Inl e, w', tr) \<Longrightarrow> P"
  by (simp add: getattr_def)

lemma trial_ref_own_exceptions:
  "trial_ref C code delta p_swap pl w = (Inl e, w', tr) \<Longrightarrow> \<exists>x. e = Collab x"
  by (cases pl) (auto elim!: seq_InlE dest: invoke_Inl getattr_Inl)

lemma trial_own_exceptions:
  assumes t: "trial C code delta p_swap po (locals_of code delta po) w = (Inl e, w', tr)"
  shows "\<exists>x. e = Collab x"
proof (cases po)
  case None
  have "locals_of code delta None = active_locals (graph code) delta"
    by (simp add: locals_of_def)
  with t None
  have "trial C code delta p_swap None (active_locals (graph code) delta) w = (Inl e, w', tr)"
    by simp
  then show ?thesis
    unfolding trial_active_ref by (rule trial_ref_own_exceptions)
next
  case (Some objs)
  have "locals_of code delta (Some objs) = passive_locals"
    by (simp add: locals_of_def)
  with t Some
  have "trial C code delta p_swap (Some objs) passive_locals w = (Inl e, w', tr)"
    by simp
  then show ?thesis
    unfolding trial_passive_ref by (rule trial_ref_own_exceptions)
qed

lemma trial_loop_own_exceptions:
  "trial_loop C code delta p_swap po (locals_of code delta po) n s w = (Inl e, w', tr) \<Longrightarrow>
   \<exists>x. e = Collab x"
proof (induction n arbitrary: s w w' tr)
  case 0
  then show ?case by (simp add: return_def)
next
  case (Suc n)
  obtain r1 w1 tr1 where
    t: "trial C code delta p_swap po (locals_of code delta po) w = (r1, w1, tr1)"
    by (cases "trial C code delta p_swap po (locals_of code delta po) w") auto
  show ?case
  proof (cases r1)
    case (Inl e1)
    with Suc.prems t have "e = e1" by (simp add: seq_def)
    with t Inl show ?thesis by (auto dest: trial_own_exceptions)
  next
    case (Inr b)
    obtain r2 w2 tr2 where l:
      "trial_loop C code delta p_swap po (locals_of code delta po) n (s + of_bool b) w1 =
         (r2, w2, tr2)"
      by (cases "trial_loop C code delta p_swap po (locals_of code delta po) n (s + of_bool b) w1")
        auto
    with Suc.prems t Inr have "r2 = Inl e" by (simp add: seq_def)
    with l Suc.IH show ?thesis by blast
  qed
qed

lemma ec_monte_carlo_own_exceptions:
  assumes "ec_monte_carlo C code T delta p_swap po w = (Inl e, w', tr)"
  shows "\<exists>x. e = Collab x"
proof -
  from assms obtain r tr0 where
    l: "trial_loop C code delta p_swap po (locals_of code delta po) (nat T) 0 w = (r, w', tr0)"
    and res: "Inl e = (case r of Inl e \<Rightarrow> Inl e | Inr s \<Rightarrow> Inr (T - s))"
    by (rule ec_monte_carlo_loop)
  from res have "r = Inl e" by (cases r) auto
  with l show ?thesis by (auto dest: trial_loop_own_exceptions)
qed

lemma ec_monte_carlo_returns_unless_raise:
  assumes run: "ec_monte_carlo C code T delta p_swap po w = (res, w', tr)"
    and quiet: "filter is_raise tr = []"
  shows "\<exists>errors. res = Inr errors"
proof (cases res)
  case (Inr errors)
  then show ?thesis by simp
next
  case (Inl e)
  with run obtain x where e: "e = Collab x"
    by (auto dest: ec_monte_carlo_own_exceptions)
  from ec_monte_carlo_raise_ok [OF run] Inl e
  have ne: "tr \<noteq> []" and l: "snd (last tr) = Raised x" by simp_all
  from l have "is_raise (last tr)" by (cases "last tr") simp
  moreover from ne have "last tr \<in> set tr" by simp
  ultimately have "filter is_raise tr \<noteq> []"
    unfolding filter_empty_conv by blast
  with quiet show ?thesis by simp
qed

section \<open>Counting, exclusion, exceptions and the frame\<close>

lemmas stub_run_defs = ec_monte_carlo_def build_config_def passive_locals_def active_locals_def
  result_def trace_def world_def trial_def seq_def return_def invoke_def getattr_def
  load_local_def stub_def stub_noisy_def stub_bundle_def stub_code_def eval_nat_numeral

lemma event_ok_frame_ok:
  "event_ok code delta p_swap po (locals_of code delta po) e \<Longrightarrow> frame_ok code delta p_swap po e"
  by (cases "(code, delta, p_swap, po, e)" rule: frame_ok.cases)
    (auto simp: locals_of_def active_locals_def passive_locals_def)

lemma stub_passive_TTF:
  "result (ec_monte_carlo stub stub_code 3 (1/100) (1/2) (Some stub_bundle) [True, True, False]) = Inr 1"
  "verdicts (trace (ec_monte_carlo stub stub_code 3 (1/100) (1/2) (Some stub_bundle) [True, True, False]))
     = [True, True, False]"
  "filter is_raise
     (trace (ec_monte_carlo stub stub_code 3 (1/100) (1/2) (Some stub_bundle) [True, True, False]))
     = []"
  by (simp_all add: stub_run_defs)

text \<open>
  C2. For every positive number of trials \<open>T\<close>, every behaviour of the collaborators
  (hence every sequence of decoder verdicts) and both pipelines: a count \<open>errors\<close>
  returned by \<^verbatim>\<open>ec_monte_carlo\<close> satisfies \<open>0 \<le> errors \<le> T\<close>; and a count is
  returned whenever no collaborator raises.
\<close>

theorem ec_monte_carlo_error_bounds:
  assumes "0 < T"
  shows "(\<forall>errors. result (ec_monte_carlo C code T delta p_swap passive_objects w) = Inr errors \<longrightarrow>
            0 \<le> errors \<and> errors \<le> T) \<and>
         (filter is_raise (trace (ec_monte_carlo C code T delta p_swap passive_objects w)) = [] \<longrightarrow>
            (\<exists>errors. result (ec_monte_carlo C code T delta p_swap passive_objects w) = Inr errors \<and>
               0 \<le> errors \<and> errors \<le> T))"
proof -
  obtain res w' tr where
    run: "ec_monte_carlo C code T delta p_swap passive_objects w = (res, w', tr)"
    by (cases "ec_monte_carlo C code T delta p_swap passive_objects w") auto
  have bounds: "0 \<le> errors \<and> errors \<le> T" if "res = Inr errors" for errors
  proof -
    note e = ec_monte_carlo_returns(1,2) [OF run [unfolded that]]
    have "length (filter (\<lambda>b. b) (verdicts tr)) \<le> length (verdicts tr)"
      by (rule length_filter_le)
    with e assms show ?thesis by linarith
  qed
  have returns: "\<exists>errors. res = Inr errors" if "filter is_raise tr = []"
    using run that by (rule ec_monte_carlo_returns_unless_raise)
  from bounds returns show ?thesis
    unfolding run result_def trace_def by auto
qed

theorem ec_monte_carlo_error_bounds_witness:
  "(0::int) < 3 \<and>
   filter is_raise
     (trace (ec_monte_carlo stub stub_code 3 (1/100) (1/2) (Some stub_bundle) [True, True, False]))
     = [] \<and>
   result (ec_monte_carlo stub stub_code 3 (1/100) (1/2) (Some stub_bundle) [True, True, False]) = Inr 1 \<and>
   (0::int) \<le> 1 \<and> (1::int) \<le> 3"
proof -
  have pos: "(0::int) < 3" by simp
  note run = stub_passive_TTF(1)
  note quiet = stub_passive_TTF(3)
  note t = ec_monte_carlo_error_bounds
    [OF pos, of stub stub_code "1/100" "1/2" "Some stub_bundle" "[True, True, False]"]
  from t run have "(0::int) \<le> 1 \<and> (1::int) \<le> 3" by blast
  with pos run quiet show ?thesis by (intro conjI) simp_all
qed

text \<open>
  C10. For every negative \<^verbatim>\<open>trials\<close>, \<^verbatim>\<open>ec_monte_carlo\<close> runs no trial: it
  raises nothing and returns \<^verbatim>\<open>trials\<close> itself, a negative number, so the bound
  \<open>0 \<le> errors\<close> fails there; the trace holds no call of a collaborator and the world
  is untouched.
\<close>

theorem ec_monte_carlo_negative_trials:
  assumes "T < 0"
  shows "result (ec_monte_carlo C code T delta p_swap passive_objects w) = Inr T \<and>
         filter is_collaborator_call
           (trace (ec_monte_carlo C code T delta p_swap passive_objects w)) = [] \<and>
         world (ec_monte_carlo C code T delta p_swap passive_objects w) = w"
  using assms
  by (simp add: ec_monte_carlo_def build_config_def seq_def return_def getattr_def
      result_def world_def trace_def)

theorem ec_monte_carlo_negative_trials_witness:
  "(-3::int) < 0 \<and>
   result (ec_monte_carlo stub stub_code (-3) (1/100) (1/2) None [True, True, False]) = Inr (-3) \<and>
   filter is_collaborator_call
     (trace (ec_monte_carlo stub stub_code (-3) (1/100) (1/2) None [True, True, False])) = [] \<and>
   world (ec_monte_carlo stub stub_code (-3) (1/100) (1/2) None [True, True, False]) = [True, True, False]"
proof -
  have neg: "(-3::int) < 0" by simp
  from ec_monte_carlo_negative_trials [OF neg] neg show ?thesis by simp
qed






lemma run_returns: "result out = Inr e \<Longrightarrow> out = (Inr e, world out, trace out)"
  by (simp add: result_def world_def trace_def prod_eq_iff)





text \<open>
  C9. In every run of \<^verbatim>\<open>ec_monte_carlo\<close>: every call of the reducer receives the
  elements of \<^verbatim>\<open>passive_objects\<close> as given, followed by \<^verbatim>\<open>p_swap\<close> and
  \<^verbatim>\<open>delta\<close>; every CV layer is built on \<^verbatim>\<open>code.graph\<close> with \<^verbatim>\<open>p_swap\<close>;
  every call of the decoder receives the code as given and every attribute read gives the
  attribute of that code; \<^verbatim>\<open>apply_noise\<close> and \<^verbatim>\<open>measure_hom\<close> are called on the
  layer built in the same iteration, which is dropped when the iteration ends. The world
  after the run is the starting world with the collaborator calls of the trace applied in
  order and nothing else: the engine changes nothing by itself. In an active run that
  returns, one layer was built per trial, and none is in use at the end.
\<close>

theorem engine_frame:
  assumes run: "ec_monte_carlo C code T delta p_swap passive_objects w = (res, w', tr)"
  shows "list_all (frame_ok code delta p_swap passive_objects) tr \<and>
         handles_fresh None tr \<and>
         w' = replay C tr w \<and>
         (\<forall>errors. res = Inr errors \<longrightarrow>
            handle_after None tr = None \<and>
            length (filter is_CVLayer_init tr) = (if passive_objects = None then nat T else 0))"
proof -
  have "list_all (frame_ok code delta p_swap passive_objects) tr"
    using ec_monte_carlo_events_ok [OF run]
    by (auto simp: list_all_iff dest: event_ok_frame_ok)
  moreover note ec_monte_carlo_fresh [OF run]
  moreover note ec_monte_carlo_replay [OF run]
  moreover have "handle_after None tr = None" if "res = Inr errors" for errors
  proof -
    from run obtain r tr0 where
      l: "trial_loop C code delta p_swap passive_objects (locals_of code delta passive_objects)
            (nat T) 0 w = (r, w', tr0)"
      and tr: "tr = (if passive_objects = None
                     then [(GetAttr ''graph'', Returned_obj (graph code))] else []) @ tr0"
      and res: "res = (case r of Inl e \<Rightarrow> Inl e | Inr s \<Rightarrow> Inr (T - s))"
      by (rule ec_monte_carlo_loop)
    from res that obtain s where "r = Inr s" by (cases r) auto
    with trial_loop_fresh [OF l] have "handle_after None tr0 = None" by simp
    then show ?thesis unfolding tr by simp
  qed
  moreover have "length (filter is_CVLayer_init tr) = (if passive_objects = None then nat T else 0)"
    if "res = Inr errors" for errors
    using ec_monte_carlo_returns(5) [OF run [unfolded that]] .
  ultimately show ?thesis by blast
qed

lemma passive_run5_facts:
  "result passive_run5 = Inr 2"
  "filter is_active_only (trace passive_run5) = []"
  "length (filter is_correct (trace passive_run5)) = nat 5"
  "length (filter is_reduce (trace passive_run5)) = nat 5"
  "list_all (frame_ok stub_code (1/100) (1/2) (Some stub_bundle)) (trace passive_run5)"
  "handles_fresh None (trace passive_run5)"
  "handle_after None (trace passive_run5) = None"
  "length (filter is_CVLayer_init (trace passive_run5)) = 0"
  by (simp_all add: passive_run5_def stub_run_defs)

lemma active_run5_facts:
  "result active_run5 = Inr 2"
  "filter is_reduce (trace active_run5) = []"
  "length (filter is_correct (trace active_run5)) = nat 5"
  "length (filter is_CVLayer_init (trace active_run5)) = nat 5"
  "length (filter is_apply_noise (trace active_run5)) = nat 5"
  "length (filter is_measure_hom (trace active_run5)) = nat 5"
  "list_all (frame_ok stub_code (1/100) (1/2) None) (trace active_run5)"
  "handles_fresh None (trace active_run5)"
  "handle_after None (trace active_run5) = None"
  by (simp_all add: active_run5_def stub_run_defs)





theorem engine_frame_witness:
  "active_run5 = ec_monte_carlo stub stub_code 5 (1/100) (1/2) None
                   [True, False, True, False, True] \<and>
   list_all (frame_ok stub_code (1/100) (1/2) None) (trace active_run5) \<and>
   handles_fresh None (trace active_run5) \<and>
   world active_run5 = replay stub (trace active_run5) [True, False, True, False, True] \<and>
   result active_run5 = Inr 2 \<and>
   handle_after None (trace active_run5) = None \<and>
   length (filter is_CVLayer_init (trace active_run5)) = nat 5 \<and>
   passive_run5 = ec_monte_carlo stub stub_code 5 (1/100) (1/2) (Some stub_bundle)
                    [True, False, True, False, True] \<and>
   list_all (frame_ok stub_code (1/100) (1/2) (Some stub_bundle)) (trace passive_run5) \<and>
   handles_fresh None (trace passive_run5) \<and>
   world passive_run5 = replay stub (trace passive_run5) [True, False, True, False, True] \<and>
   result passive_run5 = Inr 2 \<and>
   handle_after None (trace passive_run5) = None \<and>
   length (filter is_CVLayer_init (trace passive_run5)) = 0"
proof -
  have p: "ec_monte_carlo stub stub_code 5 (1/100) (1/2) (Some stub_bundle)
             [True, False, True, False, True] =
           (Inr 2, world passive_run5, trace passive_run5)"
    using run_returns [OF passive_run5_facts(1)] by (simp add: passive_run5_def)
  have a: "ec_monte_carlo stub stub_code 5 (1/100) (1/2) None
             [True, False, True, False, True] =
           (Inr 2, world active_run5, trace active_run5)"
    using run_returns [OF active_run5_facts(1)] by (simp add: active_run5_def)
  from engine_frame [OF a]
  have a1: "list_all (frame_ok stub_code (1/100) (1/2) None) (trace active_run5)"
    and a2: "handles_fresh None (trace active_run5)"
    and a3: "handle_after None (trace active_run5) = None"
    and a4: "length (filter is_CVLayer_init (trace active_run5)) = nat 5"
    and a5: "world active_run5 = replay stub (trace active_run5) [True, False, True, False, True]"
    by simp_all
  from engine_frame [OF p]
  have p1: "list_all (frame_ok stub_code (1/100) (1/2) (Some stub_bundle)) (trace passive_run5)"
    and p2: "handles_fresh None (trace passive_run5)"
    and p3: "handle_after None (trace passive_run5) = None"
    and p4: "length (filter is_CVLayer_init (trace passive_run5)) = 0"
    and p5: "world passive_run5 = replay stub (trace passive_run5) [True, False, True, False, True]"
    by simp_all
  from a1 a2 a3 a4 a5 p1 p2 p3 p4 p5 passive_run5_facts(1) active_run5_facts(1)
  show ?thesis
    by (simp only: passive_run5_def [symmetric] active_run5_def [symmetric] simp_thms)
qed

section \<open>The configuration records\<close>

text \<open>
  C6. The code before the loop builds these records and no others. With a passive bundle:
  decoder \<^verbatim>\<open>{outer: "MWPM"}\<close> and weighting
  \<^verbatim>\<open>{method: "blueprint", prob_precomputed: True}\<close>, without reading
  \<^verbatim>\<open>code.graph\<close>. Without one: \<^verbatim>\<open>code.graph\<close> is read, the noise
  configuration is \<^verbatim>\<open>{noise: "grn", delta, sampling_order: "initial"}\<close>, the
  decoder \<^verbatim>\<open>{inner: "basic", outer: "MWPM"}\<close> and the weighting
  \<^verbatim>\<open>{method: "blueprint", integer: False, multiplier: 1, delta}\<close>. Over a whole
  run \<^verbatim>\<open>code.graph\<close> is read exactly once in the active case and never in the
  passive one, and every call of \<^verbatim>\<open>apply_noise\<close> and of \<^verbatim>\<open>correct\<close> receives
  exactly these dictionaries.
\<close>

theorem build_config_records:
  "build_config code delta (Some objs) w =
     (Inr \<lparr>decoder = [(''outer'', PStr ''MWPM'')],
           weight_options = [(''method'', PStr ''blueprint''), (''prob_precomputed'', PBool True)],
           code_lattice = None,
           cv_noise = None\<rparr>, w, []) \<and>
   build_config code delta None w =
     (Inr \<lparr>decoder = [(''inner'', PStr ''basic''), (''outer'', PStr ''MWPM'')],
           weight_options = [(''method'', PStr ''blueprint''), (''integer'', PBool False),
                             (''multiplier'', PInt 1), (''delta'', PFloat delta)],
           code_lattice = Some (graph code),
           cv_noise = Some [(''noise'', PStr ''grn''), (''delta'', PFloat delta),
                            (''sampling_order'', PStr ''initial'')]\<rparr>,
      w, [(GetAttr ''graph'', Returned_obj (graph code))]) \<and>
   length (filter is_graph_read (trace (ec_monte_carlo C code T delta p_swap None w))) = 1 \<and>
   filter is_graph_read (trace (ec_monte_carlo C code T delta p_swap (Some objs) w)) = [] \<and>
   list_all
     (event_ok code delta p_swap (Some objs)
        \<lparr>decoder = [(''outer'', PStr ''MWPM'')],
         weight_options = [(''method'', PStr ''blueprint''), (''prob_precomputed'', PBool True)],
         code_lattice = None,
         cv_noise = None\<rparr>)
     (trace (ec_monte_carlo C code T delta p_swap (Some objs) w)) \<and>
   list_all
     (event_ok code delta p_swap None
        \<lparr>decoder = [(''inner'', PStr ''basic''), (''outer'', PStr ''MWPM'')],
         weight_options = [(''method'', PStr ''blueprint''), (''integer'', PBool False),
                           (''multiplier'', PInt 1), (''delta'', PFloat delta)],
         code_lattice = Some (graph code),
         cv_noise = Some [(''noise'', PStr ''grn''), (''delta'', PFloat delta),
                          (''sampling_order'', PStr ''initial'')]\<rparr>)
     (trace (ec_monte_carlo C code T delta p_swap None w))"
proof -
  have b1: "build_config code delta (Some objs) w =
     (Inr \<lparr>decoder = [(''outer'', PStr ''MWPM'')],
           weight_options = [(''method'', PStr ''blueprint''), (''prob_precomputed'', PBool True)],
           code_lattice = None,
           cv_noise = None\<rparr>, w, [])"
    by (simp add: build_config_def return_def passive_locals_def)
  have b2: "build_config code delta None w =
     (Inr \<lparr>decoder = [(''inner'', PStr ''basic''), (''outer'', PStr ''MWPM'')],
           weight_options = [(''method'', PStr ''blueprint''), (''integer'', PBool False),
                             (''multiplier'', PInt 1), (''delta'', PFloat delta)],
           code_lattice = Some (graph code),
           cv_noise = Some [(''noise'', PStr ''grn''), (''delta'', PFloat delta),
                            (''sampling_order'', PStr ''initial'')]\<rparr>,
      w, [(GetAttr ''graph'', Returned_obj (graph code))])"
    by (simp add: build_config_def seq_def getattr_def return_def active_locals_def)
  have g1: "length (filter is_graph_read (trace (ec_monte_carlo C code T delta p_swap None w))) = 1"
    using ec_monte_carlo_graph_reads [of C code T delta p_swap None w, OF run_collapse] by simp
  have g2: "filter is_graph_read (trace (ec_monte_carlo C code T delta p_swap (Some objs) w)) = []"
    using ec_monte_carlo_graph_reads [of C code T delta p_swap "Some objs" w, OF run_collapse]
    by simp
  have e1: "list_all (event_ok code delta p_swap (Some objs) passive_locals)
              (trace (ec_monte_carlo C code T delta p_swap (Some objs) w))"
    using ec_monte_carlo_events_ok [of C code T delta p_swap "Some objs" w, OF run_collapse]
    by (simp add: locals_of_def)
  have e2: "list_all (event_ok code delta p_swap None (active_locals (graph code) delta))
              (trace (ec_monte_carlo C code T delta p_swap None w))"
    using ec_monte_carlo_events_ok [of C code T delta p_swap None w, OF run_collapse]
    by (simp add: locals_of_def)
  from b1 b2 g1 g2 e1 [unfolded passive_locals_def] e2 [unfolded active_locals_def]
  show ?thesis by (intro conjI)
qed

theorem build_config_records_witness:
  "build_config stub_code (1/100) (Some stub_bundle) [True] =
     (Inr \<lparr>decoder = [(''outer'', PStr ''MWPM'')],
           weight_options = [(''method'', PStr ''blueprint''), (''prob_precomputed'', PBool True)],
           code_lattice = None,
           cv_noise = None\<rparr>, [True], ([] :: (nat, string) event list)) \<and>
   length (filter is_graph_read (trace active_run5)) = 1 \<and>
   filter is_graph_read (trace passive_run5) = []"
proof -
  note t1 =
    build_config_records
      [where code = stub_code and delta = "1/100" and objs = stub_bundle and w = "[True]"
         and C = stub and T = 5 and p_swap = "1/2", THEN conjunct1]
  note t =
    build_config_records
      [where code = stub_code and delta = "1/100" and objs = stub_bundle
         and w = "[True, False, True, False, True]" and C = stub and T = 5 and p_swap = "1/2"]
  note t2 = t [THEN conjunct2, THEN conjunct2, THEN conjunct1, folded active_run5_def]
  note t3 = t [THEN conjunct2, THEN conjunct2, THEN conjunct2, THEN conjunct1,
      folded passive_run5_def]
  from t1 t2 t3 show ?thesis by (intro conjI)
qed

section \<open>The results ledger\<close>

lemma dirname_file_name: "dirname file_name = ''./flamingpy/sims_data''"
  by (simp add: dirname_def file_name_def)

text \<open>
  C7, as amended. When the ledger file does not exist and its directory does, the program
  creates it and writes the header \<^verbatim>\<open>distance, ec, boundaries, delta, p_swap,
  errors_py, trials, current_time\<close> followed by the data row; when the file exists it
  appends the data row alone to the rows already there.
\<close>

theorem results_ledger_create_or_append:
  "(files fs file_name = None \<longrightarrow> dirname file_name \<in> set (dirs fs) \<longrightarrow>
      ledger_rows (results_ledger fs distance ec boundaries delta p_swap errors trials now) =
        Some [[PStr ''distance'', PStr ''ec'', PStr ''boundaries'', PStr ''delta'', PStr ''p_swap'',
               PStr ''errors_py'', PStr ''trials'', PStr ''current_time''],
              [PInt distance, PStr ec, PStr boundaries, PFloat delta, PFloat p_swap,
               PInt errors, PInt trials, PStr now]]) \<and>
   (\<forall>rows. files fs file_name = Some rows \<longrightarrow>
      ledger_rows (results_ledger fs distance ec boundaries delta p_swap errors trials now) =
        Some (rows @ [[PInt distance, PStr ec, PStr boundaries, PFloat delta, PFloat p_swap,
                       PInt errors, PInt trials, PStr now]]))"
  by (simp add: results_ledger_def open_x_def open_a_def writerow_def ledger_rows_def
      header_def data_row_def)

text \<open>
  C7 as the specification states it names the sixth column \<^verbatim>\<open>errors\<close>; the code
  writes \<^verbatim>\<open>errors_py\<close>. On a fresh ledger the file is not the specification's
  header followed by the data row.
\<close>

theorem results_ledger_header_counterexample:
  "ledger_rows (results_ledger stub_fs 2 ''primal'' ''open'' (1/100) (1/2) 30 100 ''12:00:00'') \<noteq>
     Some [header_spec, data_row 2 ''primal'' ''open'' (1/100) (1/2) 30 100 ''12:00:00'']"
  by (simp add: results_ledger_def open_x_def open_a_def writerow_def ledger_rows_def
      header_def header_spec_def data_row_def stub_fs_def dirname_file_name)

lemma stub_fs_fresh:
  "files stub_fs file_name = None"
  "dirname file_name \<in> set (dirs stub_fs)"
  by (simp_all add: stub_fs_def dirname_file_name)

lemma stub_fs_written_rows:
  "files stub_fs_written file_name =
     Some [[PStr ''distance'', PStr ''ec'', PStr ''boundaries'', PStr ''delta'', PStr ''p_swap'',
            PStr ''errors_py'', PStr ''trials'', PStr ''current_time''],
           [PInt 2, PStr ''primal'', PStr ''open'', PFloat (1/100), PFloat (1/2),
            PInt 30, PInt 100, PStr ''12:00:00'']]"
  by (simp add: stub_fs_written_def results_ledger_def open_x_def writerow_def
      header_def data_row_def stub_fs_def dirname_file_name)

theorem results_ledger_create_or_append_witness:
  "files stub_fs file_name = None \<and>
   dirname file_name \<in> set (dirs stub_fs) \<and>
   ledger_rows (results_ledger stub_fs 2 ''primal'' ''open'' (1/100) (1/2) 30 100 ''12:00:00'') =
     Some [[PStr ''distance'', PStr ''ec'', PStr ''boundaries'', PStr ''delta'', PStr ''p_swap'',
            PStr ''errors_py'', PStr ''trials'', PStr ''current_time''],
           [PInt 2, PStr ''primal'', PStr ''open'', PFloat (1/100), PFloat (1/2),
            PInt 30, PInt 100, PStr ''12:00:00'']] \<and>
   files stub_fs_written file_name =
     Some [[PStr ''distance'', PStr ''ec'', PStr ''boundaries'', PStr ''delta'', PStr ''p_swap'',
            PStr ''errors_py'', PStr ''trials'', PStr ''current_time''],
           [PInt 2, PStr ''primal'', PStr ''open'', PFloat (1/100), PFloat (1/2),
            PInt 30, PInt 100, PStr ''12:00:00'']] \<and>
   ledger_rows (results_ledger stub_fs_written 2 ''primal'' ''open'' (1/100) (1/2) 28 100 ''12:00:07'') =
     Some ([[PStr ''distance'', PStr ''ec'', PStr ''boundaries'', PStr ''delta'', PStr ''p_swap'',
             PStr ''errors_py'', PStr ''trials'', PStr ''current_time''],
            [PInt 2, PStr ''primal'', PStr ''open'', PFloat (1/100), PFloat (1/2),
             PInt 30, PInt 100, PStr ''12:00:00'']] @
           [[PInt 2, PStr ''primal'', PStr ''open'', PFloat (1/100), PFloat (1/2),
             PInt 28, PInt 100, PStr ''12:00:07'']])"
proof -
  note first =
    results_ledger_create_or_append
      [of stub_fs 2 "''primal''" "''open''" "1/100" "1/2" 30 100 "''12:00:00''",
       THEN conjunct1, rule_format, OF stub_fs_fresh]
  note second =
    results_ledger_create_or_append
      [of stub_fs_written 2 "''primal''" "''open''" "1/100" "1/2" 28 100 "''12:00:07''",
       THEN conjunct2, rule_format, OF stub_fs_written_rows]
  from stub_fs_fresh first stub_fs_written_rows second show ?thesis
    by (intro conjI)
qed

end
